theory Spec2Isabelle
  imports Complex_Main "HOL-Library.Sublist"
begin

section \<open>Branch checkout (app/src/lib/git/checkout.ts)\<close>

text \<open>
  A shallow embedding of \<^verbatim>\<open>getCheckoutArgs\<close>, \<^verbatim>\<open>checkoutBranch\<close> and
  \<^verbatim>\<open>checkoutPaths\<close>. The functions are asynchronous and effectful: they call the
  caller's progress callback, spawn the git subprocess and run the submodule update.
  Every operation of the model returns its result together with the list of the
  observable actions it performed, in the order in which it performed them; a rejected
  promise is the \<open>Inl\<close> of a sum.
\<close>

subsection \<open>Data model\<close>

text \<open>
  The source reads \<^verbatim>\<open>repository.path\<close>, \<^verbatim>\<open>branch.name\<close>, \<^verbatim>\<open>branch.type\<close> and
  \<^verbatim>\<open>branch.nameWithoutRemote\<close>, and compares the type with \<^verbatim>\<open>BranchType.Remote\<close>.
\<close>

record Repository =
  path :: string

text \<open>
  Modelled from the spec: the declaration of \<^verbatim>\<open>BranchType\<close> in \<^verbatim>\<open>../../models/branch\<close> is
  missing; the spec (3) gives the two variants \<^verbatim>\<open>Local\<close> and \<^verbatim>\<open>Remote\<close>.
\<close>

datatype BranchType = Local | Remote

record Branch =
  name :: string
  type :: BranchType
  nameWithoutRemote :: string

text \<open>The account is never inspected by this file: it is only handed on.\<close>

datatype IGitAccount = IGitAccount string

text \<open>
  \<^verbatim>\<open>ICheckoutProgress\<close>: the object literals built at lines 72 and 78. The literal of
  line 78 has no \<^verbatim>\<open>description\<close> property, hence the option. The field
  \<^verbatim>\<open>value\<close> is called \<open>value'\<close> here.
\<close>

record ICheckoutProgress =
  kind :: string
  title :: string
  description :: "string option"
  value' :: real
  targetBranch :: string

text \<open>
  What the progress parser hands to the handler of lines 67 to 74: a union discriminated
  by \<^verbatim>\<open>kind\<close>. \<open>GitProgress p t\<close> is an object of kind \<^verbatim>\<open>'progress'\<close> with
  \<^verbatim>\<open>percent = p\<close> and \<^verbatim>\<open>details.text = t\<close>; \<open>GitOutput t\<close> is an object of any other
  kind, carrying the line it was made from.
\<close>

datatype ParserOutput = GitProgress real string | GitOutput string

text \<open>
  Modelled from the spec: the errors that the collaborators raise are declared outside this
  file; the spec (7) names the three kinds and what each carries.
\<close>

datatype CheckoutError =
    AuthenticationError string
  | GitCommandError int string
  | SubmoduleError string

text \<open>The values a promise of this file resolves to: \<^verbatim>\<open>true\<close> or \<^verbatim>\<open>undefined\<close>.\<close>

datatype JSValue = JSUndefined | JSTrue

text \<open>
  The observable actions: a call of the caller's progress callback with its argument, the
  launch of the subprocess (argument list, working directory, operation label,
  environment), and a call of the submodule collaborator.
\<close>

datatype Event =
    Callback ICheckoutProgress
  | Spawn "string list" string string "(string \<times> string) list"
  | Submodules Repository

text \<open>
  The caller's callback is an arbitrary effectful function. Only whether it was supplied
  decides the control flow, and each call of it is an observable action.
\<close>

datatype ProgressCallback = ProgressCallback

fun invoke :: "ProgressCallback \<Rightarrow> ICheckoutProgress \<Rightarrow> Event list" where
  "invoke ProgressCallback p = [Callback p]"

record IGitExecutionOptions =
  env :: "(string \<times> string) list"
  expectedErrors :: "string list"
  trackLFSProgress :: bool
  processCallback :: "(string list \<Rightarrow> Event list) option"

text \<open>What one run of the subprocess does: its status lines, exit code and stderr.\<close>

record ProcessResult =
  statusLines :: "string list"
  exitCode :: int
  stderr :: string

subsection \<open>Collaborators outside this file\<close>

text \<open>
  The modules imported at lines 1 to 12 are not part of the source at hand. What they
  compute is a parameter of the model:
  \<^item> \<open>gitNetworkArguments\<close>: the network-transport arguments (\<^verbatim>\<open>./core\<close>);
  \<^item> \<open>envForAuthentication\<close> and \<open>AuthenticationErrors\<close>: the environment made from the
    account and the declared authentication-error signatures (\<^verbatim>\<open>./authentication\<close>);
  \<^item> \<open>parseError\<close>: the signature, if any, that a stderr text matches;
  \<^item> \<open>recognise\<close>: the stage and the fraction that a status line stands for, if it is a
    progress line;
  \<^item> \<open>enableRecurseSubmodulesFlag\<close>: the feature toggle (\<^verbatim>\<open>../feature-flag\<close>);
  \<^item> \<open>initAndUpdateSubmodules\<close>: the outcome of the submodule update (\<^verbatim>\<open>./submodule\<close>);
  \<^item> \<open>process\<close>: what the git subprocess does for an argument list and a directory.
\<close>

record Collaborators =
  gitNetworkArguments :: "Repository \<Rightarrow> IGitAccount option \<Rightarrow> string list"
  envForAuthentication :: "IGitAccount option \<Rightarrow> (string \<times> string) list"
  AuthenticationErrors :: "string list"
  parseError :: "string \<Rightarrow> string option"
  recognise :: "string \<Rightarrow> (string \<times> real) option"
  enableRecurseSubmodulesFlag :: bool
  initAndUpdateSubmodules :: "Repository \<Rightarrow> CheckoutError + unit"
  process :: "string list \<Rightarrow> string \<Rightarrow> ProcessResult"

subsection \<open>The progress parser\<close>

text \<open>
  Modelled from the spec: the class \<^verbatim>\<open>CheckoutProgressParser\<close> of \<^verbatim>\<open>../progress\<close> is
  missing. The spec (4.2) describes a single-use parser that keeps a current stage and
  the last emitted value, maps a recognised line to a fraction, drops the other lines, and
  never lets the emitted value regress: a parsed value below the last emitted one is
  clamped to the last emitted one.
\<close>

record ParserState =
  stage :: "string option"
  lastValue :: real

text \<open>
  Modelled from the spec: \<^verbatim>\<open>new CheckoutProgressParser()\<close>, the parser before its first
  line: no stage, and nothing above 0 emitted.
\<close>

definition newCheckoutProgressParser :: ParserState where
  "newCheckoutProgressParser = \<lparr>stage = None, lastValue = 0\<rparr>"

text \<open>
  Modelled from the spec: one line through the parser. An unrecognised line gives an
  output that is not of kind \<^verbatim>\<open>'progress'\<close> and leaves the state; a recognised line gives
  an output of kind \<^verbatim>\<open>'progress'\<close> whose \<^verbatim>\<open>percent\<close> is the parsed value, or the last
  emitted value if the parsed one is below it.
\<close>

definition parse :: "Collaborators \<Rightarrow> ParserState \<Rightarrow> string \<Rightarrow> ParserOutput \<times> ParserState" where
  "parse c st line =
     (case recognise c line of
        None \<Rightarrow> (GitOutput line, st)
      | Some (s, v) \<Rightarrow>
          (let emitted = (if v < lastValue st then lastValue st else v)
           in (GitProgress emitted line, \<lparr>stage = Some s, lastValue = emitted\<rparr>)))"

text \<open>
  Modelled from the spec: the lines of one subprocess through one parser, in order, the
  state carried from line to line.
\<close>

fun parseLines :: "Collaborators \<Rightarrow> ParserState \<Rightarrow> string list \<Rightarrow> ParserOutput list" where
  "parseLines c st [] = []"
| "parseLines c st (line # rest) =
     (case parse c st line of (out, st') \<Rightarrow> out # parseLines c st' rest)"

text \<open>
  Modelled from the spec: the function \<^verbatim>\<open>executionOptionsWithProgress\<close> of
  \<^verbatim>\<open>../progress\<close> is missing. By the spec (4.3) it builds an execution context that
  wires every output of the parser, in the order of the lines, into the handler it is given;
  it does not call the handler itself.
\<close>

definition executionOptionsWithProgress ::
  "Collaborators \<Rightarrow> IGitExecutionOptions \<Rightarrow> ParserState \<Rightarrow> (ParserOutput \<Rightarrow> Event list)
     \<Rightarrow> IGitExecutionOptions" where
  "executionOptionsWithProgress c options parser progressCallback =
     options\<lparr>processCallback :=
       Some (\<lambda>lines. concat (map progressCallback (parseLines c parser lines)))\<rparr>"

subsection \<open>The process-execution collaborator\<close>

text \<open>
  Modelled from the spec: the function \<^verbatim>\<open>git\<close> of \<^verbatim>\<open>./core\<close> is missing. By the
  spec (4.3, 6) it launches the subprocess with the argument list, the working directory,
  the label and the environment of the options, feeds the status stream to the options'
  process callback, and classifies the result: exit code 0 is success; a failure whose
  stderr matches one of the expected authentication-error signatures fails with
  \<open>AuthenticationError\<close> carrying the matched reason; any other failure fails with
  \<open>GitCommandError\<close> carrying the exit code and the raw stderr. Called without options
  it has no environment, no expected errors and no process callback.
\<close>

text \<open>Modelled from the spec: the options of a call of \<^verbatim>\<open>git\<close> that gives none.\<close>

definition defaultOptions :: IGitExecutionOptions where
  "defaultOptions =
     \<lparr>env = [], expectedErrors = [], trackLFSProgress = False, processCallback = None\<rparr>"

text \<open>Modelled from the spec: the classification of the result (4.3).\<close>

definition classify :: "Collaborators \<Rightarrow> IGitExecutionOptions \<Rightarrow> ProcessResult \<Rightarrow> CheckoutError + unit" where
  "classify c options r =
     (if exitCode r = 0 then Inr ()
      else (case parseError c (stderr r) of
              None \<Rightarrow> Inl (GitCommandError (exitCode r) (stderr r))
            | Some reason \<Rightarrow>
                if reason \<in> set (expectedErrors options) then Inl (AuthenticationError reason)
                else Inl (GitCommandError (exitCode r) (stderr r))))"

text \<open>
  Modelled from the spec: \<^verbatim>\<open>git(args, path, name, options)\<close>. The launch comes first,
  then what the process callback does with the status lines.
\<close>

definition git ::
  "Collaborators \<Rightarrow> string list \<Rightarrow> string \<Rightarrow> string \<Rightarrow> IGitExecutionOptions option
     \<Rightarrow> (CheckoutError + unit) \<times> Event list" where
  "git c args cwd label opts =
     (let options = (case opts of None \<Rightarrow> defaultOptions | Some given \<Rightarrow> given);
          r = process c args cwd
      in (classify c options r,
          Spawn args cwd label (env options) #
            (case processCallback options of
               None \<Rightarrow> []
             | Some cb \<Rightarrow> cb (statusLines r))))"

text \<open>
  Modelled from the spec: a call of \<^verbatim>\<open>initAndUpdateSubmodules\<close>, missing with
  \<^verbatim>\<open>./submodule\<close>. By the spec (4.4) the collaborator is delegated to entirely: the call
  is an observable action, and its outcome, success or failure, is the collaborator's.
\<close>

definition updateSubmodules :: "Collaborators \<Rightarrow> Repository \<Rightarrow> (CheckoutError + unit) \<times> Event list" where
  "updateSubmodules c repository = (initAndUpdateSubmodules c repository, [Submodules repository])"

subsection \<open>The source\<close>

text \<open>\<^verbatim>\<open>getCheckoutArgs\<close>, lines 16 to 32.\<close>

definition getCheckoutArgs ::
  "Collaborators \<Rightarrow> Repository \<Rightarrow> Branch \<Rightarrow> IGitAccount option \<Rightarrow> ProgressCallback option
     \<Rightarrow> string list" where
  "getCheckoutArgs c repository branch account progressCallback =
     (let networkArguments = gitNetworkArguments c repository account;
          baseArgs = (if progressCallback \<noteq> None
                      then networkArguments @ [''checkout'', ''--progress'']
                      else networkArguments @ [''checkout''])
      in if type branch = Remote
         then baseArgs @ [name branch, ''-b'', nameWithoutRemote branch, ''--'']
         else baseArgs @ [name branch, ''--''])"

text \<open>The handler of lines 67 to 74, given to \<^verbatim>\<open>executionOptionsWithProgress\<close>.\<close>

fun progressHandler :: "ProgressCallback \<Rightarrow> Branch \<Rightarrow> ParserOutput \<Rightarrow> Event list" where
  "progressHandler progressCallback branch (GitProgress percent text) =
     invoke progressCallback
       \<lparr>kind = ''checkout'', title = ''Checking out branch '' @ name branch,
        description = Some text, value' = percent, targetBranch = name branch\<rparr>"
| "progressHandler progressCallback branch (GitOutput text) = []"

text \<open>\<^verbatim>\<open>checkoutBranch\<close>, lines 48 to 98.\<close>

definition checkoutBranch ::
  "Collaborators \<Rightarrow> Repository \<Rightarrow> IGitAccount option \<Rightarrow> Branch \<Rightarrow> ProgressCallback option
     \<Rightarrow> (CheckoutError + JSValue) \<times> Event list" where
  "checkoutBranch c repository account branch progressCallback =
     (let opts0 = \<lparr>env = envForAuthentication c account,
                   expectedErrors = AuthenticationErrors c,
                   trackLFSProgress = False, processCallback = None\<rparr>;
          (opts, initial) =
            (case progressCallback of
               None \<Rightarrow> (opts0, [])
             | Some cb \<Rightarrow>
                 (executionOptionsWithProgress c (opts0\<lparr>trackLFSProgress := True\<rparr>)
                    newCheckoutProgressParser (progressHandler cb branch),
                  invoke cb
                    \<lparr>kind = ''checkout'', title = ''Checking out branch '' @ name branch,
                     description = None, value' = 0, targetBranch = name branch\<rparr>));
          args = getCheckoutArgs c repository branch account progressCallback;
          (result, running) = git c args (path repository) ''checkoutBranch'' (Some opts)
      in case result of
           Inl e \<Rightarrow> (Inl e, initial @ running)
         | Inr _ \<Rightarrow>
             if enableRecurseSubmodulesFlag c
             then (case updateSubmodules c repository of
                     (Inl e, cascade) \<Rightarrow> (Inl e, initial @ running @ cascade)
                   | (Inr _, cascade) \<Rightarrow> (Inr JSTrue, initial @ running @ cascade))
             else (Inr JSTrue, initial @ running))"

text \<open>\<^verbatim>\<open>checkoutPaths\<close>, lines 101 to 110.\<close>

definition checkoutPaths ::
  "Collaborators \<Rightarrow> Repository \<Rightarrow> string list \<Rightarrow> (CheckoutError + JSValue) \<times> Event list" where
  "checkoutPaths c repository paths =
     (case git c ([''checkout'', ''HEAD'', ''--''] @ paths) (path repository)
             ''checkoutPaths'' None of
        (Inl e, events) \<Rightarrow> (Inl e, events)
      | (Inr _, events) \<Rightarrow> (Inr JSUndefined, events))"

subsection \<open>Reading a run\<close>

text \<open>
  What a list of observable actions contains: the arguments of the callback's calls, the
  argument lists of the launched subprocesses, and the repositories the submodule
  collaborator was called on, each in order.
\<close>

fun delivered :: "Event list \<Rightarrow> ICheckoutProgress list" where
  "delivered [] = []"
| "delivered (Callback p # es) = p # delivered es"
| "delivered (Spawn args cwd label environment # es) = delivered es"
| "delivered (Submodules r # es) = delivered es"

fun spawned :: "Event list \<Rightarrow> string list list" where
  "spawned [] = []"
| "spawned (Callback p # es) = spawned es"
| "spawned (Spawn args cwd label environment # es) = args # spawned es"
| "spawned (Submodules r # es) = spawned es"

fun cascaded :: "Event list \<Rightarrow> Repository list" where
  "cascaded [] = []"
| "cascaded (Callback p # es) = cascaded es"
| "cascaded (Spawn args cwd label environment # es) = cascaded es"
| "cascaded (Submodules r # es) = r # cascaded es"

text \<open>The \<^verbatim>\<open>percent\<close> of the parser outputs of kind \<^verbatim>\<open>'progress'\<close>, in order.\<close>

fun progressPercents :: "ParserOutput list \<Rightarrow> real list" where
  "progressPercents [] = []"
| "progressPercents (GitProgress percent text # outs) = percent # progressPercents outs"
| "progressPercents (GitOutput text # outs) = progressPercents outs"

text \<open>The object of line 78.\<close>

definition initialProgress :: "Branch \<Rightarrow> ICheckoutProgress" where
  "initialProgress branch =
     \<lparr>kind = ''checkout'', title = ''Checking out branch '' @ name branch,
      description = None, value' = 0, targetBranch = name branch\<rparr>"

text \<open>What the subprocess of line 88 does: the process run on the built arguments.\<close>

definition checkoutRun ::
  "Collaborators \<Rightarrow> Repository \<Rightarrow> IGitAccount option \<Rightarrow> Branch \<Rightarrow> ProgressCallback option
     \<Rightarrow> ProcessResult" where
  "checkoutRun c repository account branch progressCallback =
     process c (getCheckoutArgs c repository branch account progressCallback) (path repository)"

text \<open>The callback's calls that the status lines of a run give rise to.\<close>

definition parsedEvents :: "Collaborators \<Rightarrow> ProgressCallback \<Rightarrow> Branch \<Rightarrow> string list \<Rightarrow> Event list" where
  "parsedEvents c cb branch lines =
     concat (map (progressHandler cb branch) (parseLines c newCheckoutProgressParser lines))"

subsection \<open>Example inputs\<close>

text \<open>
  Concrete collaborators and inputs, after the scenarios of the specification: a process
  with a fixed outcome, a toggle, an outcome of the submodule update, one recognised
  authentication signature and three recognised progress lines.
\<close>

definition exampleCollaborators :: "ProcessResult \<Rightarrow> bool \<Rightarrow> CheckoutError + unit \<Rightarrow> Collaborators" where
  "exampleCollaborators r flag cascade =
     \<lparr>gitNetworkArguments = (\<lambda>repository account. [''-c'', ''credential.helper='']),
      envForAuthentication = (\<lambda>account. [(''GIT_TERMINAL_PROMPT'', ''0'')]),
      AuthenticationErrors = [''SSHPermissionDenied'', ''HTTPSAuthenticationFailed''],
      parseError = (\<lambda>text. if text = ''Permission denied (publickey).''
                            then Some ''SSHPermissionDenied'' else None),
      recognise = map_of
        [(''Checking out files:  50% (1/2)'', (''Checking out files'', 1 / 2)),
         (''Checking out files:  25% (1/4)'', (''Checking out files'', 1 / 4)),
         (''Checking out files: 100% (2/2)'', (''Checking out files'', 1))],
      enableRecurseSubmodulesFlag = flag,
      initAndUpdateSubmodules = (\<lambda>repository. cascade),
      process = (\<lambda>args cwd. r)\<rparr>"

definition exampleRepository :: Repository where
  "exampleRepository = \<lparr>path = ''/home/user/repo''\<rparr>"

definition featureBranch :: Branch where
  "featureBranch =
     \<lparr>name = ''origin/feature-x'', type = Remote, nameWithoutRemote = ''feature-x''\<rparr>"

definition mainBranch :: Branch where
  "mainBranch = \<lparr>name = ''main'', type = Local, nameWithoutRemote = ''main''\<rparr>"

definition dashBranch :: Branch where
  "dashBranch = \<lparr>name = ''--progress'', type = Local, nameWithoutRemote = ''--progress''\<rparr>"

definition successfulRun :: ProcessResult where
  "successfulRun =
     \<lparr>statusLines = [''Checking out files:  50% (1/2)'', ''Switched to branch main'',
                     ''Checking out files:  25% (1/4)'', ''Checking out files: 100% (2/2)''],
      exitCode = 0, stderr = []\<rparr>"

definition deniedRun :: ProcessResult where
  "deniedRun =
     \<lparr>statusLines = [], exitCode = 128, stderr = ''Permission denied (publickey).''\<rparr>"

definition failedRun :: ProcessResult where
  "failedRun =
     \<lparr>statusLines = [], exitCode = 1,
      stderr = ''error: pathspec did not match any file(s) known to git''\<rparr>"

lemmas example_defs = exampleCollaborators_def exampleRepository_def featureBranch_def
  mainBranch_def dashBranch_def successfulRun_def deniedRun_def failedRun_def

section \<open>Properties\<close>

subsection \<open>The shape of a run of checkoutBranch\<close>

lemma delivered_append: "delivered (xs @ ys) = delivered xs @ delivered ys"
  by (induction xs rule: delivered.induct) simp_all

lemma spawned_append: "spawned (xs @ ys) = spawned xs @ spawned ys"
  by (induction xs rule: spawned.induct) simp_all

lemma cascaded_append: "cascaded (xs @ ys) = cascaded xs @ cascaded ys"
  by (induction xs rule: cascaded.induct) simp_all

text \<open>The handler only ever calls the callback.\<close>

lemma spawned_parsedEvents: "spawned (parsedEvents c cb branch lines) = []"
proof -
  have "spawned (concat (map (progressHandler cb branch) outs)) = []" for outs
    by (induction outs rule: progressPercents.induct; cases cb) (simp_all add: spawned_append)
  then show ?thesis by (simp add: parsedEvents_def)
qed

lemma cascaded_parsedEvents: "cascaded (parsedEvents c cb branch lines) = []"
proof -
  have "cascaded (concat (map (progressHandler cb branch) outs)) = []" for outs
    by (induction outs rule: progressPercents.induct; cases cb) (simp_all add: cascaded_append)
  then show ?thesis by (simp add: parsedEvents_def)
qed

text \<open>
  The actions of one call, in order: the initial progress (with a callback), the launch of
  the subprocess, the parsed progress (with a callback), and the submodule update when the
  subprocess succeeded and the toggle is on.
\<close>

lemma checkoutBranch_events:
  "snd (checkoutBranch c repository account branch progressCallback) =
     (case progressCallback of None \<Rightarrow> [] | Some cb \<Rightarrow> [Callback (initialProgress branch)])
     @ [Spawn (getCheckoutArgs c repository branch account progressCallback) (path repository)
          ''checkoutBranch'' (envForAuthentication c account)]
     @ (case progressCallback of
          None \<Rightarrow> []
        | Some cb \<Rightarrow> parsedEvents c cb branch
            (statusLines (checkoutRun c repository account branch progressCallback)))
     @ (if exitCode (checkoutRun c repository account branch progressCallback) = 0
           \<and> enableRecurseSubmodulesFlag c
        then [Submodules repository] else [])"
  by (cases progressCallback; cases "the progressCallback")
     (simp_all add: checkoutBranch_def git_def classify_def executionOptionsWithProgress_def
        updateSubmodules_def checkoutRun_def initialProgress_def parsedEvents_def Let_def
        split: sum.splits option.splits)

lemma checkoutBranch_result:
  "fst (checkoutBranch c repository account branch progressCallback) =
     (let r = checkoutRun c repository account branch progressCallback;
          opts = \<lparr>env = envForAuthentication c account,
                  expectedErrors = AuthenticationErrors c,
                  trackLFSProgress = False, processCallback = None\<rparr>
      in case classify c opts r of
           Inl e \<Rightarrow> Inl e
         | Inr u \<Rightarrow> if enableRecurseSubmodulesFlag c
                    then (case initAndUpdateSubmodules c repository of
                            Inl e \<Rightarrow> Inl e | Inr u \<Rightarrow> Inr JSTrue)
                    else Inr JSTrue)"
  by (cases progressCallback)
     (simp_all add: checkoutBranch_def git_def classify_def executionOptionsWithProgress_def
        updateSubmodules_def checkoutRun_def Let_def split: sum.splits option.splits)

text \<open>The values the callback receives, in order.\<close>

lemma parseLines_percents:
  "sorted (progressPercents (parseLines c st lines))
   \<and> (\<forall>v \<in> set (progressPercents (parseLines c st lines)). lastValue st \<le> v)"
proof (induction lines arbitrary: st)
  case Nil
  show ?case by simp
next
  case (Cons line rest)
  show ?case
  proof (cases "recognise c line")
    case None
    then show ?thesis using Cons [of st] by (simp add: parse_def)
  next
    case (Some sv)
    obtain s v where sv: "sv = (s, v)" by (cases sv)
    define emitted where "emitted = (if v < lastValue st then lastValue st else v)"
    define st' where "st' = \<lparr>stage = Some s, lastValue = emitted\<rparr>"
    have step: "parseLines c st (line # rest) = GitProgress emitted line # parseLines c st' rest"
      using Some sv by (simp add: parse_def emitted_def st'_def Let_def)
    have le: "lastValue st \<le> emitted" by (simp add: emitted_def)
    have ih: "sorted (progressPercents (parseLines c st' rest))"
      "\<forall>v \<in> set (progressPercents (parseLines c st' rest)). emitted \<le> v"
      using Cons [of st'] by (simp_all add: st'_def)
    show ?thesis unfolding step using le ih by auto
  qed
qed

lemma delivered_handler:
  "map value' (delivered (concat (map (progressHandler cb branch) outs))) = progressPercents outs"
  by (induction outs rule: progressPercents.induct; cases cb) (simp_all add: delivered_append)

lemma delivered_handler_fields:
  "p \<in> set (delivered (concat (map (progressHandler cb branch) outs))) \<Longrightarrow>
     kind p = ''checkout'' \<and> title p = ''Checking out branch '' @ name branch
     \<and> targetBranch p = name branch"
  by (induction outs rule: progressPercents.induct; cases cb) (auto simp add: delivered_append)

lemma delivered_checkoutBranch:
  "map value' (delivered (snd (checkoutBranch c repository account branch progressCallback))) =
     (case progressCallback of
        None \<Rightarrow> []
      | Some cb \<Rightarrow> 0 # progressPercents (parseLines c newCheckoutProgressParser
          (statusLines (checkoutRun c repository account branch progressCallback))))"
  by (simp add: checkoutBranch_events delivered_append delivered_handler parsedEvents_def
      initialProgress_def split: option.splits)

subsection \<open>The argument list\<close>

text \<open>
  Claim C1. For a branch of type \<open>Remote\<close> the argument list built for
  \<^verbatim>\<open>checkoutBranch\<close> ends with the branch's name, \<^verbatim>\<open>-b\<close>, the name without the remote
  and \<^verbatim>\<open>--\<close>; for a branch of any other type it ends with the branch's name and
  \<^verbatim>\<open>--\<close>. The list built by \<open>getCheckoutArgs\<close> is the one, and the only one, that
  \<open>checkoutBranch\<close> launches a subprocess with.
\<close>

theorem getCheckoutArgs_branch_suffix:
  "(type branch = Remote \<longrightarrow>
      suffix [name branch, ''-b'', nameWithoutRemote branch, ''--'']
        (getCheckoutArgs c repository branch account progressCallback))
   \<and> (type branch \<noteq> Remote \<longrightarrow>
      suffix [name branch, ''--'']
        (getCheckoutArgs c repository branch account progressCallback))
   \<and> spawned (snd (checkoutBranch c repository account branch progressCallback)) =
        [getCheckoutArgs c repository branch account progressCallback]"
proof (intro conjI impI)
  assume "type branch = Remote"
  then show "suffix [name branch, ''-b'', nameWithoutRemote branch, ''--'']
        (getCheckoutArgs c repository branch account progressCallback)"
    by (simp add: getCheckoutArgs_def Let_def suffix_def)
next
  assume "type branch \<noteq> Remote"
  then show "suffix [name branch, ''--'']
        (getCheckoutArgs c repository branch account progressCallback)"
    by (simp add: getCheckoutArgs_def Let_def suffix_def)
next
  show "spawned (snd (checkoutBranch c repository account branch progressCallback)) =
        [getCheckoutArgs c repository branch account progressCallback]"
    by (simp add: checkoutBranch_events spawned_append spawned_parsedEvents split: option.splits)
qed

theorem getCheckoutArgs_branch_suffix_witness:
  "type featureBranch = Remote
   \<and> getCheckoutArgs (exampleCollaborators successfulRun False (Inr ())) exampleRepository
       featureBranch None None
       = [''-c'', ''credential.helper='', ''checkout'', ''origin/feature-x'', ''-b'',
          ''feature-x'', ''--'']
   \<and> suffix [''origin/feature-x'', ''-b'', ''feature-x'', ''--'']
       (getCheckoutArgs (exampleCollaborators successfulRun False (Inr ())) exampleRepository
          featureBranch None None)
   \<and> type mainBranch \<noteq> Remote
   \<and> suffix [''main'', ''--'']
       (getCheckoutArgs (exampleCollaborators successfulRun False (Inr ())) exampleRepository
          mainBranch None (Some ProgressCallback))"
  using getCheckoutArgs_branch_suffix [of featureBranch
      "exampleCollaborators successfulRun False (Inr ())" exampleRepository None None]
    getCheckoutArgs_branch_suffix [of mainBranch
      "exampleCollaborators successfulRun False (Inr ())" exampleRepository None
      "Some ProgressCallback"]
  by (simp add: example_defs getCheckoutArgs_def)

subsection \<open>The initial progress\<close>

text \<open>
  Claim C2. When a progress callback is supplied, the first action of \<^verbatim>\<open>checkoutBranch\<close>
  is a call of the callback with the zero-value event (kind \<^verbatim>\<open>checkout\<close>, the title, value
  0, the target branch, no description); the launch of the subprocess comes second, and
  every later action, so every parsed progress event, comes after both. No other
  subprocess is launched.
\<close>

theorem checkoutBranch_initial_progress_first:
  "\<exists>later. snd (checkoutBranch c repository account branch (Some cb)) =
      Callback \<lparr>kind = ''checkout'', title = ''Checking out branch '' @ name branch,
                description = None, value' = 0, targetBranch = name branch\<rparr>
      # Spawn (getCheckoutArgs c repository branch account (Some cb)) (path repository)
          ''checkoutBranch'' (envForAuthentication c account)
      # later
    \<and> spawned later = []"
  by (simp add: checkoutBranch_events initialProgress_def spawned_append spawned_parsedEvents)

theorem checkoutBranch_initial_progress_first_witness:
  "take 2 (snd (checkoutBranch (exampleCollaborators successfulRun False (Inr ()))
      exampleRepository None mainBranch (Some ProgressCallback))) =
     [Callback \<lparr>kind = ''checkout'', title = ''Checking out branch main'',
                 description = None, value' = 0, targetBranch = ''main''\<rparr>,
      Spawn [''-c'', ''credential.helper='', ''checkout'', ''--progress'', ''main'', ''--'']
        ''/home/user/repo'' ''checkoutBranch'' [(''GIT_TERMINAL_PROMPT'', ''0'')]]"
  using checkoutBranch_initial_progress_first
      [of "exampleCollaborators successfulRun False (Inr ())" exampleRepository None
        mainBranch ProgressCallback]
  by (auto simp add: example_defs getCheckoutArgs_def)

subsection \<open>The progress flag\<close>

text \<open>
  Claim C3, as stated: the flag \<^verbatim>\<open>--progress\<close> appears in the built argument list if and
  only if a progress callback was supplied. It fails for a branch whose name is the
  string \<^verbatim>\<open>--progress\<close>: without a callback the list is the network arguments,
  \<^verbatim>\<open>checkout\<close>, \<^verbatim>\<open>--progress\<close>, \<^verbatim>\<open>--\<close>.
\<close>

theorem progress_flag_counterexample:
  "\<not> (''--progress'' \<in> set (getCheckoutArgs (exampleCollaborators successfulRun False (Inr ()))
          exampleRepository dashBranch None None)
        \<longleftrightarrow> (None :: ProgressCallback option) \<noteq> None)"
  by (simp add: example_defs getCheckoutArgs_def)

text \<open>
  Claim C3, amended. When the string \<^verbatim>\<open>--progress\<close> is neither one of the network
  arguments nor the branch's name nor, for a remote branch, its name without the remote,
  the flag \<^verbatim>\<open>--progress\<close> appears in the built argument list if and only if a progress
  callback was supplied.
\<close>

theorem progress_flag_iff_callback:
  assumes "''--progress'' \<notin> set (gitNetworkArguments c repository account)"
    and "name branch \<noteq> ''--progress''"
    and "type branch = Remote \<longrightarrow> nameWithoutRemote branch \<noteq> ''--progress''"
  shows "''--progress'' \<in> set (getCheckoutArgs c repository branch account progressCallback)
           \<longleftrightarrow> progressCallback \<noteq> None"
  using assms by (auto simp add: getCheckoutArgs_def Let_def)

theorem progress_flag_iff_callback_witness:
  "''--progress'' \<notin> set (gitNetworkArguments (exampleCollaborators successfulRun False (Inr ()))
       exampleRepository None)
   \<and> name featureBranch \<noteq> ''--progress''
   \<and> type featureBranch = Remote
   \<and> nameWithoutRemote featureBranch \<noteq> ''--progress''
   \<and> ''--progress'' \<in> set (getCheckoutArgs (exampleCollaborators successfulRun False (Inr ()))
         exampleRepository featureBranch None (Some ProgressCallback))
   \<and> ''--progress'' \<notin> set (getCheckoutArgs (exampleCollaborators successfulRun False (Inr ()))
         exampleRepository featureBranch None None)"
  using progress_flag_iff_callback [of "exampleCollaborators successfulRun False (Inr ())"
      exampleRepository None featureBranch "Some ProgressCallback"]
    progress_flag_iff_callback [of "exampleCollaborators successfulRun False (Inr ())"
      exampleRepository None featureBranch None]
  by (simp add: example_defs)

subsection \<open>The submodule update\<close>

text \<open>
  Claim C4. When the checkout subprocess succeeds, the toggle is on and the submodule
  update fails, \<^verbatim>\<open>checkoutBranch\<close> fails, with the failure of the submodule update.
\<close>

theorem checkoutBranch_cascade_failure:
  assumes "exitCode (checkoutRun c repository account branch progressCallback) = 0"
    and "enableRecurseSubmodulesFlag c"
    and "initAndUpdateSubmodules c repository = Inl e"
  shows "fst (checkoutBranch c repository account branch progressCallback) = Inl e"
  using assms by (simp add: checkoutBranch_result classify_def)

theorem checkoutBranch_cascade_failure_witness:
  "exitCode (checkoutRun
       (exampleCollaborators successfulRun True (Inl (SubmoduleError ''clone failed'')))
       exampleRepository None mainBranch None) = 0
   \<and> enableRecurseSubmodulesFlag
       (exampleCollaborators successfulRun True (Inl (SubmoduleError ''clone failed'')))
   \<and> fst (checkoutBranch
       (exampleCollaborators successfulRun True (Inl (SubmoduleError ''clone failed'')))
       exampleRepository None mainBranch None) = Inl (SubmoduleError ''clone failed'')"
  using checkoutBranch_cascade_failure
      [of "exampleCollaborators successfulRun True (Inl (SubmoduleError ''clone failed''))"
        exampleRepository None mainBranch None "SubmoduleError ''clone failed''"]
  by (simp add: example_defs checkoutRun_def)

text \<open>
  Claim C5. In a run of \<^verbatim>\<open>checkoutBranch\<close> the submodule collaborator is called, once and
  on the repository, exactly when the toggle is on and the checkout subprocess succeeded;
  otherwise it is not called at all.
\<close>

theorem checkoutBranch_cascade_iff:
  "cascaded (snd (checkoutBranch c repository account branch progressCallback)) =
     (if enableRecurseSubmodulesFlag c
         \<and> exitCode (checkoutRun c repository account branch progressCallback) = 0
      then [repository] else [])"
  by (simp add: checkoutBranch_events cascaded_append cascaded_parsedEvents split: option.splits)

theorem checkoutBranch_cascade_iff_witness:
  "cascaded (snd (checkoutBranch (exampleCollaborators successfulRun True (Inr ()))
       exampleRepository None mainBranch (Some ProgressCallback))) = [exampleRepository]
   \<and> cascaded (snd (checkoutBranch (exampleCollaborators successfulRun False (Inr ()))
       exampleRepository None mainBranch (Some ProgressCallback))) = []
   \<and> cascaded (snd (checkoutBranch (exampleCollaborators failedRun True (Inr ()))
       exampleRepository None mainBranch (Some ProgressCallback))) = []"
  using checkoutBranch_cascade_iff [of "exampleCollaborators successfulRun True (Inr ())"
      exampleRepository None mainBranch "Some ProgressCallback"]
    checkoutBranch_cascade_iff [of "exampleCollaborators successfulRun False (Inr ())"
      exampleRepository None mainBranch "Some ProgressCallback"]
    checkoutBranch_cascade_iff [of "exampleCollaborators failedRun True (Inr ())"
      exampleRepository None mainBranch "Some ProgressCallback"]
  by (simp add: example_defs checkoutRun_def)

subsection \<open>Failures of the subprocess\<close>

text \<open>
  Claim C6. When the checkout subprocess exits with a failure, \<^verbatim>\<open>checkoutBranch\<close> fails:
  with \<open>AuthenticationError\<close> carrying the matched reason if the stderr matches one of the
  declared authentication-error signatures, and with \<open>GitCommandError\<close> carrying the exit
  code and the raw stderr otherwise. Here \<open>r\<close> is the run of the subprocess.
\<close>

theorem checkoutBranch_failure_classified:
  assumes "r = checkoutRun c repository account branch progressCallback"
    and "exitCode r \<noteq> 0"
  shows "(parseError c (stderr r) = Some reason \<and> reason \<in> set (AuthenticationErrors c) \<longrightarrow>
            fst (checkoutBranch c repository account branch progressCallback) =
              Inl (AuthenticationError reason))
       \<and> (\<not> (\<exists>known. parseError c (stderr r) = Some known
                \<and> known \<in> set (AuthenticationErrors c)) \<longrightarrow>
            fst (checkoutBranch c repository account branch progressCallback) =
              Inl (GitCommandError (exitCode r) (stderr r)))"
  using assms
  by (auto simp add: checkoutBranch_result classify_def Let_def split: option.splits)

theorem checkoutBranch_failure_classified_witness:
  "exitCode (checkoutRun (exampleCollaborators deniedRun True (Inr ())) exampleRepository None
       mainBranch None) \<noteq> 0
   \<and> parseError (exampleCollaborators deniedRun True (Inr ())) (stderr deniedRun)
       = Some ''SSHPermissionDenied''
   \<and> ''SSHPermissionDenied'' \<in> set (AuthenticationErrors (exampleCollaborators deniedRun True (Inr ())))
   \<and> fst (checkoutBranch (exampleCollaborators deniedRun True (Inr ())) exampleRepository None
       mainBranch None) = Inl (AuthenticationError ''SSHPermissionDenied'')
   \<and> exitCode (checkoutRun (exampleCollaborators failedRun True (Inr ())) exampleRepository None
       mainBranch None) \<noteq> 0
   \<and> parseError (exampleCollaborators failedRun True (Inr ())) (stderr failedRun) = None
   \<and> fst (checkoutBranch (exampleCollaborators failedRun True (Inr ())) exampleRepository None
       mainBranch None) =
       Inl (GitCommandError 1 ''error: pathspec did not match any file(s) known to git'')"
  using checkoutBranch_failure_classified
      [of deniedRun "exampleCollaborators deniedRun True (Inr ())" exampleRepository None
        mainBranch None "''SSHPermissionDenied''"]
    checkoutBranch_failure_classified
      [of failedRun "exampleCollaborators failedRun True (Inr ())" exampleRepository None
        mainBranch None "''SSHPermissionDenied''"]
  by (simp add: example_defs checkoutRun_def)

subsection \<open>Monotone progress\<close>

text \<open>
  Claim C7. Within one call of \<^verbatim>\<open>checkoutBranch\<close>, whatever the status lines of the
  subprocess are, the values handed to the progress callback are non-decreasing; and a
  parsed value below the last emitted value is emitted as the last emitted value.
\<close>

theorem checkoutBranch_progress_monotone:
  "sorted (map value'
     (delivered (snd (checkoutBranch c repository account branch progressCallback))))
   \<and> (recognise c line = Some (s, v) \<and> v < lastValue st \<longrightarrow>
        fst (parse c st line) = GitProgress (lastValue st) line)"
proof
  show "sorted (map value'
     (delivered (snd (checkoutBranch c repository account branch progressCallback))))"
    using parseLines_percents [of c newCheckoutProgressParser]
    by (simp add: delivered_checkoutBranch newCheckoutProgressParser_def split: option.splits)
  show "recognise c line = Some (s, v) \<and> v < lastValue st \<longrightarrow>
        fst (parse c st line) = GitProgress (lastValue st) line"
    by (simp add: parse_def Let_def)
qed

theorem checkoutBranch_progress_monotone_witness:
  "map value' (delivered (snd (checkoutBranch (exampleCollaborators successfulRun False (Inr ()))
       exampleRepository None mainBranch (Some ProgressCallback)))) = [0, 1 / 2, 1 / 2, 1]
   \<and> sorted [0, 1 / 2, 1 / 2, 1 :: real]
   \<and> recognise (exampleCollaborators successfulRun False (Inr ()))
       ''Checking out files:  25% (1/4)'' = Some (''Checking out files'', 1 / 4)
   \<and> (1 / 4 :: real) < lastValue \<lparr>stage = Some ''Checking out files'', lastValue = 1 / 2\<rparr>
   \<and> fst (parse (exampleCollaborators successfulRun False (Inr ()))
         \<lparr>stage = Some ''Checking out files'', lastValue = 1 / 2\<rparr>
         ''Checking out files:  25% (1/4)'')
       = GitProgress (1 / 2) ''Checking out files:  25% (1/4)''"
  using checkoutBranch_progress_monotone
      [of "exampleCollaborators successfulRun False (Inr ())" exampleRepository None mainBranch
        "Some ProgressCallback" "''Checking out files:  25% (1/4)''" "''Checking out files''"
        "1 / 4" "\<lparr>stage = Some ''Checking out files'', lastValue = 1 / 2\<rparr>"]
  by (simp add: example_defs checkoutBranch_def git_def classify_def
      executionOptionsWithProgress_def getCheckoutArgs_def newCheckoutProgressParser_def
      parse_def Let_def)

subsection \<open>Checking out paths\<close>

text \<open>
  Claim C8. \<^verbatim>\<open>checkoutPaths\<close> performs exactly one action: it launches the subprocess with
  the arguments \<^verbatim>\<open>checkout\<close>, \<^verbatim>\<open>HEAD\<close>, \<^verbatim>\<open>--\<close> and the paths, in the repository's
  path, with no environment from credentials; the callback and the submodule collaborator
  are not called. It fails exactly when the subprocess fails, and then always with the
  unclassified \<open>GitCommandError\<close> carrying the exit code and the raw stderr.
\<close>

theorem checkoutPaths_run:
  "snd (checkoutPaths c repository paths) =
     [Spawn ([''checkout'', ''HEAD'', ''--''] @ paths) (path repository) ''checkoutPaths'' []]
   \<and> fst (checkoutPaths c repository paths) =
       (if exitCode (process c ([''checkout'', ''HEAD'', ''--''] @ paths) (path repository)) = 0
        then Inr JSUndefined
        else Inl (GitCommandError
               (exitCode (process c ([''checkout'', ''HEAD'', ''--''] @ paths) (path repository)))
               (stderr (process c ([''checkout'', ''HEAD'', ''--''] @ paths) (path repository)))))"
  by (simp add: checkoutPaths_def git_def classify_def defaultOptions_def Let_def
      split: option.splits)

theorem checkoutPaths_run_witness:
  "checkoutPaths (exampleCollaborators successfulRun True (Inr ())) exampleRepository
       [''a.txt'', ''b/c.txt''] =
     (Inr JSUndefined,
      [Spawn [''checkout'', ''HEAD'', ''--'', ''a.txt'', ''b/c.txt''] ''/home/user/repo''
         ''checkoutPaths'' []])
   \<and> fst (checkoutPaths (exampleCollaborators deniedRun True (Inr ())) exampleRepository
       [''a.txt'', ''b/c.txt'']) = Inl (GitCommandError 128 ''Permission denied (publickey).'')"
  using checkoutPaths_run [of "exampleCollaborators successfulRun True (Inr ())" exampleRepository
      "[''a.txt'', ''b/c.txt'']"]
    checkoutPaths_run [of "exampleCollaborators deniedRun True (Inr ())" exampleRepository
      "[''a.txt'', ''b/c.txt'']"]
  by (simp add: example_defs prod_eq_iff)

subsection \<open>The success value\<close>

text \<open>
  Claim C9. When the checkout subprocess succeeds and, if the toggle is on, the submodule
  update succeeds, \<^verbatim>\<open>checkoutBranch\<close> returns \<^verbatim>\<open>true\<close>, which is not \<^verbatim>\<open>undefined\<close>.
\<close>

theorem checkoutBranch_success_true:
  assumes "exitCode (checkoutRun c repository account branch progressCallback) = 0"
    and "enableRecurseSubmodulesFlag c \<longrightarrow> initAndUpdateSubmodules c repository = Inr ()"
  shows "fst (checkoutBranch c repository account branch progressCallback) = Inr JSTrue
         \<and> JSTrue \<noteq> JSUndefined"
  using assms by (simp add: checkoutBranch_result classify_def)

theorem checkoutBranch_success_true_witness:
  "exitCode (checkoutRun (exampleCollaborators successfulRun True (Inr ())) exampleRepository None
       featureBranch None) = 0
   \<and> enableRecurseSubmodulesFlag (exampleCollaborators successfulRun True (Inr ()))
   \<and> initAndUpdateSubmodules (exampleCollaborators successfulRun True (Inr ())) exampleRepository
       = Inr ()
   \<and> fst (checkoutBranch (exampleCollaborators successfulRun True (Inr ())) exampleRepository None
       featureBranch None) = Inr JSTrue"
  using checkoutBranch_success_true [of "exampleCollaborators successfulRun True (Inr ())"
      exampleRepository None featureBranch None]
  by (simp add: example_defs checkoutRun_def)

subsection \<open>The fields of every event\<close>

text \<open>
  Claim C10. Every event that \<^verbatim>\<open>checkoutBranch\<close> hands to the progress callback, the
  initial one and the parsed ones, has kind \<^verbatim>\<open>checkout\<close>, the title
  \<^verbatim>\<open>Checking out branch\<close> followed by the branch's name, and the branch's name as target
  branch. A parser output whose kind is not \<^verbatim>\<open>progress\<close> leads to no call of the
  callback: the callback is called once for the initial event and once for each parser
  output of kind \<^verbatim>\<open>progress\<close>.
\<close>

theorem checkoutBranch_event_fields:
  "(\<forall>p \<in> set (delivered (snd (checkoutBranch c repository account branch progressCallback))).
      kind p = ''checkout'' \<and> title p = ''Checking out branch '' @ name branch
      \<and> targetBranch p = name branch)
   \<and> progressHandler cb branch (GitOutput text) = []
   \<and> length (delivered (snd (checkoutBranch c repository account branch (Some cb)))) =
       1 + length (progressPercents (parseLines c newCheckoutProgressParser
             (statusLines (checkoutRun c repository account branch (Some cb)))))"
proof (intro conjI ballI)
  fix p
  assume "p \<in> set (delivered (snd (checkoutBranch c repository account branch progressCallback)))"
  then show "kind p = ''checkout''" "title p = ''Checking out branch '' @ name branch"
    "targetBranch p = name branch"
    using delivered_handler_fields [of p _ branch]
    by (auto simp add: checkoutBranch_events delivered_append parsedEvents_def initialProgress_def
        split: option.splits if_splits)
next
  show "progressHandler cb branch (GitOutput text) = []" by simp
next
  have "length (map value'
          (delivered (snd (checkoutBranch c repository account branch (Some cb))))) =
       1 + length (progressPercents (parseLines c newCheckoutProgressParser
             (statusLines (checkoutRun c repository account branch (Some cb)))))"
    by (simp only: delivered_checkoutBranch) simp
  then show "length (delivered (snd (checkoutBranch c repository account branch (Some cb)))) =
       1 + length (progressPercents (parseLines c newCheckoutProgressParser
             (statusLines (checkoutRun c repository account branch (Some cb)))))"
    by simp
qed

theorem checkoutBranch_event_fields_witness:
  "delivered (snd (checkoutBranch (exampleCollaborators successfulRun False (Inr ()))
       exampleRepository None mainBranch (Some ProgressCallback))) =
     [\<lparr>kind = ''checkout'', title = ''Checking out branch main'', description = None,
       value' = 0, targetBranch = ''main''\<rparr>,
      \<lparr>kind = ''checkout'', title = ''Checking out branch main'',
       description = Some ''Checking out files:  50% (1/2)'', value' = 1 / 2,
       targetBranch = ''main''\<rparr>,
      \<lparr>kind = ''checkout'', title = ''Checking out branch main'',
       description = Some ''Checking out files:  25% (1/4)'', value' = 1 / 2,
       targetBranch = ''main''\<rparr>,
      \<lparr>kind = ''checkout'', title = ''Checking out branch main'',
       description = Some ''Checking out files: 100% (2/2)'', value' = 1,
       targetBranch = ''main''\<rparr>]
   \<and> length (progressPercents (parseLines (exampleCollaborators successfulRun False (Inr ()))
       newCheckoutProgressParser (statusLines successfulRun))) = 3"
  using checkoutBranch_event_fields [of "exampleCollaborators successfulRun False (Inr ())"
      exampleRepository None mainBranch "Some ProgressCallback" ProgressCallback "[]"]
  by (simp add: example_defs checkoutBranch_def git_def classify_def
      executionOptionsWithProgress_def getCheckoutArgs_def newCheckoutProgressParser_def
      parse_def Let_def)

end
